theory Spec2Isabelle
  imports Complex_Main
begin

section \<open>Request data\<close>

subsection \<open>JavaScript values\<close>

text \<open>
  A number as JavaScript holds it after parsing a JSON body: zero, an infinity (a JSON
  number too large for a double), or a finite non-zero number. A finite number is given by
  the digits \<open>s\<close> and the exponent \<open>n\<close> of its shortest decimal form, the very
  triple from which \<open>Number::toString\<close> prints: \<open>Finite neg s n\<close> is
  \<open>s * 10 ^ (n - k)\<close>, negated when \<open>neg\<close>, where \<open>k\<close> is the number of digits of
  \<open>s\<close> and \<open>s\<close> does not end in 0. So 300 is \<open>Finite False 3 3\<close>, 19.99 is
  \<open>Finite False 1999 2\<close> and 1e21 is \<open>Finite False 1 22\<close>. Every double has such
  a triple; a triple that is the shortest form of no double does not come out of a body.
\<close>

datatype jsnum = Zero | Infinite bool | Finite bool nat int

text \<open>
  A value that is not an array. \<open>JUndefined\<close> is a field that the body does not have.
  \<open>JObj\<close> is a JSON object; its keys are not modelled, and it stands for an object that
  has no key named toString or valueOf.
\<close>

datatype jsatom = JUndefined | JNull | JBool bool | JNum jsnum | JStr string | JObj

text \<open>
  The value of a body field or of a path parameter: an atom, or an array of atoms. Arrays
  inside arrays are not modelled. Strings are sequences of bytes (UTF-8).
\<close>

datatype jsvalue = Atom jsatom | JArr "jsatom list"

text \<open>
  The methods: the five that router.ts registers routes for, HEAD and OPTIONS, which the
  framework and the CORS middleware treat on their own, and \<open>OTHER\<close> for every other
  method.
\<close>

datatype http_method = GET | POST | PUT | PATCH | DELETE | HEAD | OPTIONS | OTHER

text \<open>
  A request: \<open>req_path\<close> is the list of the non-empty segments of the path, written
  without percent escapes (the whole path at the server, the part below the mount point at
  the router); \<open>req_trailing_slash\<close> says whether the path ends in a slash;
  \<open>req_body\<close> is the object produced by the JSON body parser; \<open>req_origin\<close> is the
  Origin header (\<open>None\<close> when the header is missing).
\<close>

record request =
  req_method :: http_method
  req_path :: "string list"
  req_trailing_slash :: bool
  req_origin :: "string option"
  req_body :: "string \<rightharpoonup> jsvalue"

section \<open>The validation rule library\<close>

text \<open>
  router.ts builds its rules from express-validator, whose standard validators are the
  string predicates of validator.js applied to the field's value turned into a string.
\<close>

definition is_digit :: "char \<Rightarrow> bool" where
  "is_digit c = (c \<in> set ''0123456789'')"

definition all_digits :: "string \<Rightarrow> bool" where
  "all_digits s = (s \<noteq> [] \<and> list_all is_digit s)"

fun strip_sign :: "string \<Rightarrow> string" where
  "strip_sign [] = []"
| "strip_sign (c # cs) = (if c = CHR ''+'' \<or> c = CHR ''-'' then cs else c # cs)"

text \<open>\<open>isInt\<close>: the string matches \<^verbatim>\<open>^[-+]?[0-9]+$\<close>.\<close>

definition isInt :: "string \<Rightarrow> bool" where
  "isInt s = all_digits (strip_sign s)"

text \<open>\<open>isNumeric\<close>: the string matches \<^verbatim>\<open>^[+-]?([0-9]*[.])?[0-9]+$\<close>.\<close>

definition isNumeric :: "string \<Rightarrow> bool" where
  "isNumeric s =
     (let t = strip_sign s
      in case dropWhile is_digit t of
           [] \<Rightarrow> t \<noteq> []
         | c # decimals \<Rightarrow> c = CHR ''.'' \<and> all_digits decimals)"

text \<open>\<open>isBoolean\<close> (strict): the string is one of true, false, 1, 0.\<close>

definition isBoolean :: "string \<Rightarrow> bool" where
  "isBoolean s = (s \<in> set [''true'', ''false'', ''1'', ''0''])"

text \<open>\<open>isEmpty\<close>: the string has length 0 (whitespace is not ignored).\<close>

definition isEmpty :: "string \<Rightarrow> bool" where
  "isEmpty s = (length s = 0)"

subsection \<open>Numbers as text\<close>

fun digits_of :: "nat \<Rightarrow> string" where
  "digits_of n =
     (if n < 10 then [''0123456789'' ! n]
      else digits_of (n div 10) @ [''0123456789'' ! (n mod 10)])"

declare digits_of.simps [simp del]

text \<open>
  \<open>Number::toString\<close> of the language standard for a finite non-zero number without its
  sign: plain digits when \<open>k \<le> n \<le> 21\<close>, a decimal point inside the digits when
  \<open>0 < n \<le> 21\<close>, \<open>0.\<close> and zeros before the digits when \<open>-6 < n \<le> 0\<close>, and
  exponent form otherwise (so 1e21 prints as \<open>1e+21\<close> and 1e-7 as \<open>1e-7\<close>).
\<close>

definition finite_text :: "nat \<Rightarrow> int \<Rightarrow> string" where
  "finite_text s n =
     (let ds = digits_of s; k = int (length ds)
      in if k \<le> n \<and> n \<le> 21 then ds @ replicate (nat (n - k)) (CHR ''0'')
         else if 0 < n \<and> n \<le> 21 then take (nat n) ds @ ''.'' @ drop (nat n) ds
         else if - 6 < n \<and> n \<le> 0 then ''0.'' @ replicate (nat (- n)) (CHR ''0'') @ ds
         else (let e = n - 1;
                   es = (if e < 0 then ''-'' else ''+'') @ digits_of (nat \<bar>e\<bar>)
               in if k = 1 then ds @ ''e'' @ es
                  else take 1 ds @ ''.'' @ drop 1 ds @ ''e'' @ es))"

fun num_toString :: "jsnum \<Rightarrow> string" where
  "num_toString Zero = ''0''"
| "num_toString (Infinite neg) = (if neg then ''-Infinity'' else ''Infinity'')"
| "num_toString (Finite neg s n) = (if neg then ''-'' else []) @ finite_text s n"

text \<open>JavaScript's \<open>String(value)\<close> of an atom.\<close>

fun js_String :: "jsatom \<Rightarrow> string" where
  "js_String JUndefined = ''undefined''"
| "js_String JNull = ''null''"
| "js_String (JBool b) = (if b then ''true'' else ''false'')"
| "js_String (JNum x) = num_toString x"
| "js_String (JStr s) = s"
| "js_String JObj = ''[object Object]''"

text \<open>
  express-validator's \<open>toString\<close>, which a standard validator applies to what it checks:
  \<open>undefined\<close> and \<open>null\<close> become the empty string, everything else goes through
  \<open>String(value)\<close>.
\<close>

fun js_toString :: "jsatom \<Rightarrow> string" where
  "js_toString JUndefined = []"
| "js_toString JNull = []"
| "js_toString a = js_String a"

text \<open>
  \<open>Array.prototype.join\<close> with a comma, which is how an array turns into a string:
  \<open>null\<close> and \<open>undefined\<close> elements give the empty string.
\<close>

fun js_join :: "jsatom list \<Rightarrow> string" where
  "js_join [] = []"
| "js_join [a] = js_toString a"
| "js_join (a # b # bs) = js_toString a @ '','' @ js_join (b # bs)"

subsection \<open>Text as numbers\<close>

text \<open>
  What the comparison \<^verbatim>\<open>value > 0\<close> needs of the number a value converts to: whether
  it is NaN, below zero, zero or above zero.
\<close>

datatype numsign = NaN | Negative | IsZero | Positive

definition digit_val :: "char \<Rightarrow> nat" where
  "digit_val c = of_char c - 48"

definition nat_of_digits :: "string \<Rightarrow> nat" where
  "nat_of_digits s = foldl (\<lambda>acc c. 10 * acc + digit_val c) 0 s"

text \<open>
  The length of the white space or line terminator at the start of a string (0 when there
  is none): tab, line feed, vertical tab, form feed, carriage return, space, and in UTF-8
  U+00A0, U+1680, U+2000 to U+200A, U+2028, U+2029, U+202F, U+205F, U+3000 and U+FEFF.
\<close>

fun ws_len :: "string \<Rightarrow> nat" where
  "ws_len [] = 0"
| "ws_len (c # cs) =
     (if c \<in> set [CHR 0x09, CHR 0x0A, CHR 0x0B, CHR 0x0C, CHR 0x0D, CHR 0x20] then 1
      else if c = CHR 0xC2 \<and> take 1 cs = [CHR 0xA0] then 2
      else if c = CHR 0xE1 \<and> take 2 cs = [CHR 0x9A, CHR 0x80] then 3
      else if c = CHR 0xE2 \<and> take 1 cs = [CHR 0x80] \<and> length cs \<ge> 2
              \<and> ((128 :: nat) \<le> of_char (cs ! 1) \<and> (of_char (cs ! 1) :: nat) \<le> 138
                  \<or> cs ! 1 \<in> set [CHR 0xA8, CHR 0xA9, CHR 0xAF]) then 3
      else if c = CHR 0xE2 \<and> take 2 cs = [CHR 0x81, CHR 0x9F] then 3
      else if c = CHR 0xE3 \<and> take 2 cs = [CHR 0x80, CHR 0x80] then 3
      else if c = CHR 0xEF \<and> take 2 cs = [CHR 0xBB, CHR 0xBF] then 3
      else 0)"

function strip_ws :: "string \<Rightarrow> string" where
  "strip_ws s = (if ws_len s = 0 then s else strip_ws (drop (ws_len s) s))"
  by pat_completeness auto
termination
proof (relation "measure length")
  show "wf (measure length)" by simp
next
  fix s :: string
  assume "ws_len s \<noteq> 0"
  then have "s \<noteq> []" by (cases s) simp_all
  with \<open>ws_len s \<noteq> 0\<close> show "(drop (ws_len s) s, s) \<in> measure length" by simp
qed

declare strip_ws.simps [simp del]

definition is_hex :: "char \<Rightarrow> bool" where
  "is_hex c = (c \<in> set ''0123456789abcdefABCDEF'')"

definition is_octal :: "char \<Rightarrow> bool" where
  "is_octal c = (c \<in> set ''01234567'')"

definition is_binary :: "char \<Rightarrow> bool" where
  "is_binary c = (c \<in> set ''01'')"

text \<open>
  A literal with a radix prefix, after the prefix: at least one digit, then only white
  space. Its value is zero exactly when all digits are 0.
\<close>

definition radix_sign :: "(char \<Rightarrow> bool) \<Rightarrow> string \<Rightarrow> numsign" where
  "radix_sign ok t =
     (let ds = takeWhile ok t
      in if ds = [] \<or> strip_ws (dropWhile ok t) \<noteq> [] then NaN
         else if list_all (\<lambda>c. c = CHR ''0'') ds then IsZero else Positive)"

text \<open>
  A decimal value \<open>m * 10 ^ e\<close> with \<open>m > 0\<close> becomes the double 0 when it is at
  most half of the smallest double, \<open>2 ^ - 1075\<close> (round to nearest, ties to even).
\<close>

definition rounds_to_zero :: "nat \<Rightarrow> int \<Rightarrow> bool" where
  "rounds_to_zero m e = (e < 0 \<and> int m * 2 ^ 1075 \<le> 10 ^ nat (- e))"

text \<open>
  An unsigned decimal literal: \<open>Infinity\<close>, or digits with an optional fraction and an
  optional exponent part, then only white space.
\<close>

definition decimal_sign :: "bool \<Rightarrow> string \<Rightarrow> numsign" where
  "decimal_sign neg u =
     (if take 8 u = ''Infinity'' then
        (if strip_ws (drop 8 u) = [] then (if neg then Negative else Positive) else NaN)
      else
        (let d1 = takeWhile is_digit u;
             u1 = dropWhile is_digit u;
             d2 = (if take 1 u1 = ''.'' then takeWhile is_digit (drop 1 u1) else []);
             u2 = (if take 1 u1 = ''.'' then dropWhile is_digit (drop 1 u1) else u1);
             has_exp = (take 1 u2 = ''e'' \<or> take 1 u2 = ''E'');
             u3 = strip_sign (drop 1 u2);
             ed = takeWhile is_digit u3;
             ex = (if \<not> has_exp then 0
                   else if take 1 (drop 1 u2) = ''-'' then - int (nat_of_digits ed)
                   else int (nat_of_digits ed));
             rest = (if has_exp then dropWhile is_digit u3 else u2);
             m = nat_of_digits (d1 @ d2)
         in if d1 = [] \<and> d2 = [] then NaN
            else if has_exp \<and> ed = [] then NaN
            else if strip_ws rest \<noteq> [] then NaN
            else if m = 0 \<or> rounds_to_zero m (ex - int (length d2)) then IsZero
            else if neg then Negative else Positive))"

text \<open>
  The sign of \<open>Number(s)\<close> for a string: white space around the literal is dropped, the
  empty string is 0, a prefix 0x, 0o or 0b (in either case) starts a literal in that radix
  and takes no sign, anything else is a decimal literal with an optional sign.
\<close>

definition str_sign :: "string \<Rightarrow> numsign" where
  "str_sign s =
     (let t = strip_ws s
      in if t = [] then IsZero
         else if take 2 t = ''0x'' \<or> take 2 t = ''0X'' then radix_sign is_hex (drop 2 t)
         else if take 2 t = ''0o'' \<or> take 2 t = ''0O'' then radix_sign is_octal (drop 2 t)
         else if take 2 t = ''0b'' \<or> take 2 t = ''0B'' then radix_sign is_binary (drop 2 t)
         else if take 1 t = ''-'' then decimal_sign True (drop 1 t)
         else if take 1 t = ''+'' then decimal_sign False (drop 1 t)
         else decimal_sign False t)"

fun num_sign :: "jsnum \<Rightarrow> numsign" where
  "num_sign Zero = IsZero"
| "num_sign (Infinite neg) = (if neg then Negative else Positive)"
| "num_sign (Finite neg s n) = (if s = 0 then IsZero else if neg then Negative else Positive)"

text \<open>The sign of the number an atom converts to.\<close>

fun atom_sign :: "jsatom \<Rightarrow> numsign" where
  "atom_sign JUndefined = NaN"
| "atom_sign JNull = IsZero"
| "atom_sign (JBool b) = (if b then Positive else IsZero)"
| "atom_sign (JNum x) = num_sign x"
| "atom_sign (JStr s) = str_sign s"
| "atom_sign JObj = NaN"

text \<open>An array converts to a number through its text.\<close>

fun value_sign :: "jsvalue \<Rightarrow> numsign" where
  "value_sign (Atom a) = atom_sign a"
| "value_sign (JArr xs) = str_sign (js_join xs)"

text \<open>The comparisons \<^verbatim>\<open>value > 0\<close> and \<^verbatim>\<open>value <= 0\<close>; both are false for NaN.\<close>

definition js_gt_zero :: "jsvalue \<Rightarrow> bool" where
  "js_gt_zero v = (value_sign v = Positive)"


subsection \<open>Validation chains\<close>

datatype location = Params | Body

datatype validator = IsInt | IsNumeric | IsBoolean | NotEmpty | CustomGtZero

record validation_error =
  err_msg :: string
  err_param :: string
  err_location :: location

text \<open>
  A chain such as \<^verbatim>\<open>body("price").isNumeric().withMessage(m1).notEmpty().withMessage(m2)\<close>
  is the field it reads and its validators in order, each with the message attached to it.
\<close>

record chain =
  chain_location :: location
  chain_field :: string
  chain_checks :: "(validator \<times> string) list"

text \<open>
  What a standard validator checks one by one: the elements of an array, or the value
  itself. An empty array has nothing to check.
\<close>

fun field_values :: "jsvalue \<Rightarrow> jsatom list" where
  "field_values (Atom a) = [a]"
| "field_values (JArr xs) = xs"

text \<open>
  How many errors a validator finds in a value. A standard validator looks at the text of
  each atom and counts those it rejects; \<open>notEmpty\<close> is \<open>isEmpty\<close> negated. The custom
  validator \<^verbatim>\<open>(value) => value > 0\<close> gets the value as it is and fails at most once.
\<close>

fun failures :: "validator \<Rightarrow> jsvalue \<Rightarrow> nat" where
  "failures IsInt v = length (filter (\<lambda>a. \<not> isInt (js_toString a)) (field_values v))"
| "failures IsNumeric v = length (filter (\<lambda>a. \<not> isNumeric (js_toString a)) (field_values v))"
| "failures IsBoolean v = length (filter (\<lambda>a. \<not> isBoolean (js_toString a)) (field_values v))"
| "failures NotEmpty v = length (filter (\<lambda>a. isEmpty (js_toString a)) (field_values v))"
| "failures CustomGtZero v = (if js_gt_zero v then 0 else 1)"

definition passes :: "validator \<Rightarrow> jsvalue \<Rightarrow> bool" where
  "passes vd v = (failures vd v = 0)"

section \<open>Products and the store\<close>

text \<open>The Product schema of router.ts: id (integer), name, price (number), availability.\<close>

record product =
  product_id :: int
  name :: string
  price :: jsnum
  availability :: bool

text \<open>
  Modelled from the spec: the data store (the ORM and its table) is not among the
  sources. It holds the Product rows, generates the id of a new row from a counter that
  only grows, and any of its calls can fail (the "store error" of the handler table);
  \<open>online\<close> says whether the store answers. The server does start without it:
  \<open>connectDB\<close> catches a failed connection and only logs it.
\<close>

record store =
  rows :: "product list"
  next_id :: int
  online :: bool

text \<open>
  Modelled from the spec: what a store call gives back, the store error of the handler
  table or its value.
\<close>

datatype 'a store_result = StoreError | Ok 'a

text \<open>
  Modelled from the spec: the integer key a path value binds to; a value that is not an
  integer numeral has none.
\<close>

definition parse_int :: "string \<Rightarrow> int option" where
  "parse_int s =
     (if isInt s then
        (let n = int (nat_of_digits (strip_sign s))
         in Some (if take 1 s = ''-'' then - n else n))
      else None)"

text \<open>
  Modelled from the spec: lookup by primary key. The path value binds to the integer key;
  a key that is not an integer numeral makes the call fail.
\<close>

definition store_findByPk :: "store \<Rightarrow> string \<Rightarrow> product option store_result" where
  "store_findByPk s key =
     (if \<not> online s then StoreError
      else case parse_int key of
             None \<Rightarrow> StoreError
           | Some i \<Rightarrow> Ok (find (\<lambda>p. product_id p = i) (rows s)))"

text \<open>Modelled from the spec: all products, in the order of the rows.\<close>

definition store_findAll :: "store \<Rightarrow> product list store_result" where
  "store_findAll s = (if \<not> online s then StoreError else Ok (rows s))"

text \<open>
  Modelled from the spec: a new row gets the next id and availability true.
\<close>

definition store_create :: "store \<Rightarrow> string \<Rightarrow> jsnum \<Rightarrow> (product \<times> store) store_result" where
  "store_create s nm pr =
     (if \<not> online s then StoreError
      else (let p = \<lparr>product_id = next_id s, name = nm, price = pr, availability = True\<rparr>
            in Ok (p, s\<lparr>rows := rows s @ [p], next_id := next_id s + 1\<rparr>)))"

text \<open>Modelled from the spec: saving a product replaces the row that has its id.\<close>

definition store_save :: "store \<Rightarrow> product \<Rightarrow> store store_result" where
  "store_save s p =
     (if \<not> online s then StoreError
      else Ok (s\<lparr>rows := map (\<lambda>q. if product_id q = product_id p then p else q) (rows s)\<rparr>))"

text \<open>Modelled from the spec: deleting a product removes the row that has its id.\<close>

definition store_destroy :: "store \<Rightarrow> product \<Rightarrow> store store_result" where
  "store_destroy s p =
     (if \<not> online s then StoreError
      else Ok (s\<lparr>rows := filter (\<lambda>q. product_id q \<noteq> product_id p) (rows s)\<rparr>))"

section \<open>Responses and the request context\<close>

datatype payload =
    ProductJson product
  | ProductsJson "product list"
  | ErrorsJson "validation_error list"
  | DeletedMessage
  | NotFoundMessage
  | ServerErrorMessage
  | AllowedMethods "http_method list"
  | NoContent
  | DocsPage
  | DocsRedirect
  | StatusText
  | NoRouteMatched

record response =
  status :: nat
  payload :: payload

datatype handler_name =
  GetProducts | GetProductById | CreateProduct | UpdateProduct | UpdateAvailability | DeleteProduct

text \<open>What ran while a request was served, in order.\<close>

datatype event =
    Checked location string
  | InputErrorsRejected
  | InputErrorsPassed
  | Invoked handler_name

text \<open>
  The state a request carries through the router: the request, \<open>req.params.id\<close>, the
  validation errors collected so far, the store, the events so far, and for an OPTIONS
  request the methods of the routes whose path matched.
\<close>

record ctx =
  ctx_req :: request
  ctx_id :: "string option"
  ctx_errors :: "validation_error list"
  ctx_store :: store
  ctx_trace :: "event list"
  ctx_options :: "http_method list"

record result =
  res_response :: response
  res_store :: store
  res_trace :: "event list"

datatype outcome = Next ctx | Done result

definition body_field :: "request \<Rightarrow> string \<Rightarrow> jsvalue" where
  "body_field r f = (case req_body r f of None \<Rightarrow> Atom JUndefined | Some v \<Rightarrow> v)"

definition select_field :: "location \<Rightarrow> string \<Rightarrow> ctx \<Rightarrow> jsvalue" where
  "select_field loc f c =
     (case loc of
        Body \<Rightarrow> body_field (ctx_req c) f
      | Params \<Rightarrow>
          (if f = ''id'' then (case ctx_id c of None \<Rightarrow> Atom JUndefined | Some v \<Rightarrow> Atom (JStr v))
           else Atom JUndefined))"

text \<open>
  Running a chain: every validator runs, and each failure adds one error with the
  validator's message.
\<close>

definition run_chain :: "chain \<Rightarrow> ctx \<Rightarrow> validation_error list" where
  "run_chain ch c =
     concat (map (\<lambda>(vd, m).
         replicate (failures vd (select_field (chain_location ch) (chain_field ch) c))
           \<lparr>err_msg = m, err_param = chain_field ch, err_location = chain_location ch\<rparr>)
       (chain_checks ch))"

section \<open>The validation middleware\<close>

text \<open>
  Modelled from the spec: \<open>handleInputErrors\<close> is imported from ./midlleware, which is not
  among the sources. If the collected error list is non-empty it answers 400 with the
  list and the rest of the route does not run; otherwise it calls the next function and
  changes nothing.
\<close>

definition handleInputErrors :: "ctx \<Rightarrow> outcome" where
  "handleInputErrors c =
     (if ctx_errors c \<noteq> [] then
        Done \<lparr>res_response = \<lparr>status = 400, payload = ErrorsJson (ctx_errors c)\<rparr>,
              res_store = ctx_store c,
              res_trace = ctx_trace c @ [InputErrorsRejected]\<rparr>
      else Next (c\<lparr>ctx_trace := ctx_trace c @ [InputErrorsPassed]\<rparr>))"

section \<open>The product handlers\<close>

text \<open>
  The six handlers are imported from ./handlers/product, which is not among the sources.
  Each one below is modelled from the handler table of the spec: one store call, the
  success answer of its row, 404 when the product is not found, 500 when the store call
  fails. A handler always answers; it never hands the request on.
\<close>

text \<open>
  Modelled from the spec: what the handlers share. An answer is a status with a JSON body;
  \<open>id_param\<close> is \<open>req.params.id\<close>; a body field is a name when it is a string, a price
  when it is a number and an availability when it is a boolean, as the data model types
  them.
\<close>

definition answer :: "nat \<Rightarrow> payload \<Rightarrow> response" where
  "answer st pl = \<lparr>status = st, payload = pl\<rparr>"

definition id_param :: "ctx \<Rightarrow> string" where
  "id_param c = (case ctx_id c of None \<Rightarrow> [] | Some k \<Rightarrow> k)"

fun as_text :: "jsvalue \<Rightarrow> string option" where
  "as_text (Atom (JStr s)) = Some s"
| "as_text v = None"

fun as_number :: "jsvalue \<Rightarrow> jsnum option" where
  "as_number (Atom (JNum x)) = Some x"
| "as_number v = None"

fun as_bool :: "jsvalue \<Rightarrow> bool option" where
  "as_bool (Atom (JBool b)) = Some b"
| "as_bool v = None"

text \<open>Modelled from the spec: List. 200 with all products; store unavailable gives 500.\<close>

definition getProducts :: "ctx \<Rightarrow> response \<times> store" where
  "getProducts c =
     (case store_findAll (ctx_store c) of
        StoreError \<Rightarrow> (answer 500 ServerErrorMessage, ctx_store c)
      | Ok ps \<Rightarrow> (answer 200 (ProductsJson ps), ctx_store c))"

text \<open>Modelled from the spec: Get by id. 200 with the matching product; not found gives 404.\<close>

definition getProductById :: "ctx \<Rightarrow> response \<times> store" where
  "getProductById c =
     (case store_findByPk (ctx_store c) (id_param c) of
        StoreError \<Rightarrow> (answer 500 ServerErrorMessage, ctx_store c)
      | Ok None \<Rightarrow> (answer 404 NotFoundMessage, ctx_store c)
      | Ok (Some p) \<Rightarrow> (answer 200 (ProductJson p), ctx_store c))"

text \<open>
  Modelled from the spec: Create. 201 with the newly created product (id assigned by the
  store, availability true), made of the name and the price of the body. A name that is no
  string or a price that is no number is refused by the store.
\<close>

definition createProduct :: "ctx \<Rightarrow> response \<times> store" where
  "createProduct c =
     (case (as_text (body_field (ctx_req c) ''name''),
            as_number (body_field (ctx_req c) ''price'')) of
        (Some nm, Some pr) \<Rightarrow>
          (case store_create (ctx_store c) nm pr of
             StoreError \<Rightarrow> (answer 500 ServerErrorMessage, ctx_store c)
           | Ok (p, s') \<Rightarrow> (answer 201 (ProductJson p), s'))
      | _ \<Rightarrow> (answer 500 ServerErrorMessage, ctx_store c))"

text \<open>
  Modelled from the spec: Update (full). The product is replaced by the three body fields;
  200 with the updated product; not found gives 404. A field that is not of its type is
  refused by the store.
\<close>

definition updateProduct :: "ctx \<Rightarrow> response \<times> store" where
  "updateProduct c =
     (case store_findByPk (ctx_store c) (id_param c) of
        StoreError \<Rightarrow> (answer 500 ServerErrorMessage, ctx_store c)
      | Ok None \<Rightarrow> (answer 404 NotFoundMessage, ctx_store c)
      | Ok (Some p) \<Rightarrow>
          (case (as_text (body_field (ctx_req c) ''name''),
                 as_number (body_field (ctx_req c) ''price''),
                 as_bool (body_field (ctx_req c) ''availability'')) of
             (Some nm, Some pr, Some av) \<Rightarrow>
               (let p' = p\<lparr>name := nm, price := pr, availability := av\<rparr>
                in case store_save (ctx_store c) p' of
                     StoreError \<Rightarrow> (answer 500 ServerErrorMessage, ctx_store c)
                   | Ok s' \<Rightarrow> (answer 200 (ProductJson p'), s'))
           | _ \<Rightarrow> (answer 500 ServerErrorMessage, ctx_store c)))"

text \<open>
  Modelled from the spec: Patch availability. 200 with the product whose availability is
  the logical NOT of the current value; not found gives 404.
\<close>

definition updateAvailability :: "ctx \<Rightarrow> response \<times> store" where
  "updateAvailability c =
     (case store_findByPk (ctx_store c) (id_param c) of
        StoreError \<Rightarrow> (answer 500 ServerErrorMessage, ctx_store c)
      | Ok None \<Rightarrow> (answer 404 NotFoundMessage, ctx_store c)
      | Ok (Some p) \<Rightarrow>
          (let p' = p\<lparr>availability := \<not> availability p\<rparr>
           in case store_save (ctx_store c) p' of
                StoreError \<Rightarrow> (answer 500 ServerErrorMessage, ctx_store c)
              | Ok s' \<Rightarrow> (answer 200 (ProductJson p'), s')))"

text \<open>Modelled from the spec: Delete. 200 with a confirmation; not found gives 404.\<close>

definition deleteProduct :: "ctx \<Rightarrow> response \<times> store" where
  "deleteProduct c =
     (case store_findByPk (ctx_store c) (id_param c) of
        StoreError \<Rightarrow> (answer 500 ServerErrorMessage, ctx_store c)
      | Ok None \<Rightarrow> (answer 404 NotFoundMessage, ctx_store c)
      | Ok (Some p) \<Rightarrow>
          (case store_destroy (ctx_store c) p of
             StoreError \<Rightarrow> (answer 500 ServerErrorMessage, ctx_store c)
           | Ok s' \<Rightarrow> (answer 200 DeletedMessage, s')))"

fun handler :: "handler_name \<Rightarrow> ctx \<Rightarrow> response \<times> store" where
  "handler GetProducts = getProducts"
| "handler GetProductById = getProductById"
| "handler CreateProduct = createProduct"
| "handler UpdateProduct = updateProduct"
| "handler UpdateAvailability = updateAvailability"
| "handler DeleteProduct = deleteProduct"

section \<open>The router\<close>

text \<open>
  The arguments of a route registration after the path: a validation chain, the validation
  middleware, or a handler.
\<close>

datatype layer = Check chain | HandleInputErrors | Handle handler_name

datatype path_pattern = Root | IdParam

record route =
  route_method :: http_method
  route_path :: path_pattern
  route_layers :: "layer list"

fun run_layer :: "layer \<Rightarrow> ctx \<Rightarrow> outcome" where
  "run_layer (Check ch) c =
     Next (c\<lparr>ctx_errors := ctx_errors c @ run_chain ch c,
             ctx_trace := ctx_trace c @ [Checked (chain_location ch) (chain_field ch)]\<rparr>)"
| "run_layer HandleInputErrors c = handleInputErrors c"
| "run_layer (Handle h) c =
     (case handler h c of
        (resp, s') \<Rightarrow>
          Done \<lparr>res_response = resp, res_store = s', res_trace = ctx_trace c @ [Invoked h]\<rparr>)"

fun run_layers :: "layer list \<Rightarrow> ctx \<Rightarrow> outcome" where
  "run_layers [] c = Next c"
| "run_layers (l # ls) c =
     (case run_layer l c of Done r \<Rightarrow> Done r | Next c' \<Rightarrow> run_layers ls c')"

text \<open>
  \<^verbatim>\<open>"/"\<close> matches the empty path, \<^verbatim>\<open>"/:id"\<close> matches one non-empty segment and binds it
  to \<open>id\<close>; a slash at the end of the path plays no part.
\<close>

fun match_path :: "path_pattern \<Rightarrow> string list \<Rightarrow> string option option" where
  "match_path Root [] = Some None"
| "match_path IdParam [seg] = (if seg = [] then None else Some (Some seg))"
| "match_path _ _ = None"

text \<open>
  A route handles the method it was registered for, and a GET route handles HEAD as well
  (no route is registered for HEAD).
\<close>

definition handles :: "route \<Rightarrow> http_method \<Rightarrow> bool" where
  "handles rt m = (route_method rt = m \<or> (m = HEAD \<and> route_method rt = GET))"

text \<open>
  For an OPTIONS request the router collects, without repeats, the methods of the routes
  whose path matches: a GET route counts for GET and HEAD.
\<close>

definition route_options :: "route \<Rightarrow> http_method list" where
  "route_options rt = (if route_method rt = GET then [GET, HEAD] else [route_method rt])"

definition append_methods :: "http_method list \<Rightarrow> http_method list \<Rightarrow> http_method list" where
  "append_methods ms new = foldl (\<lambda>acc m. if m \<in> set acc then acc else acc @ [m]) ms new"

text \<open>
  Routes are tried in registration order. A route whose layers all call next hands the
  request to the later routes. When none answers, an OPTIONS request whose path matched
  some route is answered with the collected methods, and any other request gets the
  framework's 404.
\<close>

fun run_routes :: "route list \<Rightarrow> ctx \<Rightarrow> result" where
  "run_routes [] c =
     (if req_method (ctx_req c) = OPTIONS \<and> ctx_options c \<noteq> [] then
        \<lparr>res_response = answer 200 (AllowedMethods (ctx_options c)),
         res_store = ctx_store c, res_trace = ctx_trace c\<rparr>
      else
        \<lparr>res_response = answer 404 NoRouteMatched,
         res_store = ctx_store c, res_trace = ctx_trace c\<rparr>)"
| "run_routes (r # rs) c =
     (case match_path (route_path r) (req_path (ctx_req c)) of
        None \<Rightarrow> run_routes rs c
      | Some ident \<Rightarrow>
          (if handles r (req_method (ctx_req c)) then
             (case run_layers (route_layers r) (c\<lparr>ctx_id := ident\<rparr>) of
                Done res \<Rightarrow> res
              | Next c' \<Rightarrow> run_routes rs c')
           else if req_method (ctx_req c) = OPTIONS then
             run_routes rs (c\<lparr>ctx_options := append_methods (ctx_options c) (route_options r)\<rparr>)
           else run_routes rs c))"

definition dispatch :: "route list \<Rightarrow> request \<Rightarrow> store \<Rightarrow> result" where
  "dispatch rts r s =
     run_routes rts \<lparr>ctx_req = r, ctx_id = None, ctx_errors = [], ctx_store = s,
                     ctx_trace = [], ctx_options = []\<rparr>"

subsection \<open>The rules and routes of router.ts\<close>

definition id_rule :: chain where
  "id_rule = \<lparr>chain_location = Params, chain_field = ''id'',
              chain_checks = [(IsInt, ''Valor no admitido'')]\<rparr>"

definition name_rule :: chain where
  "name_rule = \<lparr>chain_location = Body, chain_field = ''name'',
                chain_checks = [(NotEmpty, ''Debes ingresar un nombre de producto'')]\<rparr>"

definition price_rule :: chain where
  "price_rule = \<lparr>chain_location = Body, chain_field = ''price'',
                 chain_checks = [(IsNumeric, ''Valor no admitido''),
                                 (NotEmpty, ''Debes ingresar un precio de producto''),
                                 (CustomGtZero, ''Valor no admitido'')]\<rparr>"

definition availability_rule :: chain where
  "availability_rule = \<lparr>chain_location = Body, chain_field = ''availability'',
     chain_checks = [(IsBoolean,
        ''Valor de disponibilidad no v'' @ [CHR 0xC3, CHR 0xA1] @ ''lido'')]\<rparr>"

definition get_all_route :: route where
  "get_all_route = \<lparr>route_method = GET, route_path = Root,
                    route_layers = [Handle GetProducts]\<rparr>"

definition get_by_id_route :: route where
  "get_by_id_route = \<lparr>route_method = GET, route_path = IdParam,
     route_layers = [Check id_rule, HandleInputErrors, Handle GetProductById]\<rparr>"

definition post_route :: route where
  "post_route = \<lparr>route_method = POST, route_path = Root,
     route_layers = [Check name_rule, Check price_rule, HandleInputErrors, Handle CreateProduct]\<rparr>"

definition put_route :: route where
  "put_route = \<lparr>route_method = PUT, route_path = IdParam,
     route_layers = [Check id_rule, Check name_rule, Check price_rule, Check availability_rule,
                     HandleInputErrors, Handle UpdateProduct]\<rparr>"

definition patch_route :: route where
  "patch_route = \<lparr>route_method = PATCH, route_path = IdParam,
     route_layers = [Check id_rule, HandleInputErrors, Handle UpdateAvailability]\<rparr>"

definition delete_route :: route where
  "delete_route = \<lparr>route_method = DELETE, route_path = IdParam,
     route_layers = [Check id_rule, HandleInputErrors, Handle DeleteProduct]\<rparr>"

text \<open>The router, in the order of its registrations; PATCH /:id is registered twice.\<close>

definition router :: "route list" where
  "router = [get_all_route, get_by_id_route, post_route, put_route,
             patch_route, patch_route, delete_route]"

text \<open>The same router with PATCH /:id registered once.\<close>

definition router_single_patch :: "route list" where
  "router_single_patch = [get_all_route, get_by_id_route, post_route, put_route,
                          patch_route, delete_route]"

section \<open>The server\<close>

text \<open>
  \<open>corsOptions.origin\<close>: the callback gets no error and \<open>true\<close> when the request's origin
  is strictly equal to \<open>process.env.FRONTEND_URL\<close>, and an error otherwise. Both can be
  \<open>undefined\<close> (\<open>None\<close>): a request without an Origin header, a variable that is not set.
\<close>

definition corsOptions_origin :: "string option \<Rightarrow> string option \<Rightarrow> string + bool" where
  "corsOptions_origin frontend_url origin =
     (if origin = frontend_url then Inr True else Inl ''Error de CORS'')"

datatype server_result = Failed string | Served result

text \<open>A mount path matches segment by segment, without regard to the case of letters.\<close>

definition lower :: "char \<Rightarrow> char" where
  "lower c =
     (case map_of (zip ''ABCDEFGHIJKLMNOPQRSTUVWXYZ'' ''abcdefghijklmnopqrstuvwxyz'') c of
        None \<Rightarrow> c
      | Some d \<Rightarrow> d)"

fun strip_prefix :: "string list \<Rightarrow> string list \<Rightarrow> string list option" where
  "strip_prefix [] segs = Some segs"
| "strip_prefix (p # ps) [] = None"
| "strip_prefix (p # ps) (x # segs) =
     (if map lower p = map lower x then strip_prefix ps segs else None)"

text \<open>
  The documentation under /docs (\<open>swaggerUi.serve\<close>, then the page of
  \<open>swaggerUi.setup\<close>): a path that ends in /package.json gets 404; GET or HEAD of /docs
  itself without a slash at the end is redirected to /docs/; everything else gets a file of
  the user interface or its page.
\<close>

definition docs :: "request \<Rightarrow> string list \<Rightarrow> response" where
  "docs r rest =
     (if rest \<noteq> [] \<and> last rest = ''package.json'' \<and> \<not> req_trailing_slash r
        then answer 404 StatusText
      else if rest = [] \<and> \<not> req_trailing_slash r \<and> (req_method r = GET \<or> req_method r = HEAD)
        then answer 301 DocsRedirect
      else answer 200 DocsPage)"

text \<open>
  The routers the server mounts, in order: the product router under /api/products, then
  the documentation under /docs; body parsing and logging do not change the modelled
  request.
\<close>

definition routers :: "request \<Rightarrow> store \<Rightarrow> result" where
  "routers r s =
     (case strip_prefix [''api'', ''products''] (req_path r) of
        Some rest \<Rightarrow> dispatch router (r\<lparr>req_path := rest\<rparr>) s
      | None \<Rightarrow>
          (case strip_prefix [''docs''] (req_path r) of
             Some rest \<Rightarrow> \<lparr>res_response = docs r rest, res_store = s, res_trace = []\<rparr>
           | None \<Rightarrow> \<lparr>res_response = answer 404 NoRouteMatched, res_store = s, res_trace = []\<rparr>))"

text \<open>
  What the request meets once the origin callback has accepted it. The CORS middleware
  answers an OPTIONS request itself, with 204 and no body, and does not call next
  (\<open>preflightContinue\<close> is off by default); every other request goes on to the routers.
\<close>

definition mounted :: "request \<Rightarrow> store \<Rightarrow> result" where
  "mounted r s =
     (if req_method r = OPTIONS
        then \<lparr>res_response = answer 204 NoContent, res_store = s, res_trace = []\<rparr>
      else routers r s)"

text \<open>
  \<open>server\<close> with \<open>cors(corsOptions)\<close> in front: an error from the origin callback goes to
  the framework's error handling and nothing after it runs; an accepted request gets what
  \<open>mounted\<close> gives, the preflight answer or the answer of the routers.
\<close>

definition server :: "string option \<Rightarrow> request \<Rightarrow> store \<Rightarrow> server_result" where
  "server frontend_url r s =
     (case corsOptions_origin frontend_url (req_origin r) of
        Inl err \<Rightarrow> Failed err
      | Inr allow \<Rightarrow> Served (mounted r s))"

section \<open>The scenarios of the spec as data\<close>

text \<open>
  Requests and stores used to run the model: requests without an Origin header to the
  router, requests to /api/products from a given origin, an empty store, and a store that
  holds one unavailable product with id 1 and price 20.
\<close>

abbreviation request_of :: "http_method \<Rightarrow> string list \<Rightarrow> (string \<rightharpoonup> jsvalue) \<Rightarrow> request" where
  "request_of m p b \<equiv>
     \<lparr>req_method = m, req_path = p, req_trailing_slash = False, req_origin = None, req_body = b\<rparr>"

abbreviation monitor :: jsvalue where
  "monitor \<equiv> Atom (JStr ''Monitor'')"

abbreviation number_300 :: jsnum where
  "number_300 \<equiv> Finite False 3 3"

abbreviation number_1e21 :: jsnum where
  "number_1e21 \<equiv> Finite False 1 22"

abbreviation create_monitor :: request where
  "create_monitor \<equiv>
     request_of POST [] [''name'' \<mapsto> monitor, ''price'' \<mapsto> Atom (JNum number_300)]"


abbreviation create_1e21 :: request where
  "create_1e21 \<equiv>
     request_of POST [] [''name'' \<mapsto> monitor, ''price'' \<mapsto> Atom (JNum number_1e21)]"



abbreviation put_9999 :: request where
  "put_9999 \<equiv> request_of PUT [''9999'']
     [''name'' \<mapsto> monitor, ''price'' \<mapsto> Atom (JNum number_300),
      ''availability'' \<mapsto> Atom (JBool True)]"

abbreviation put_without_availability :: request where
  "put_without_availability \<equiv>
     request_of PUT [''1''] [''name'' \<mapsto> monitor, ''price'' \<mapsto> Atom (JNum number_300)]"

abbreviation patch_1 :: request where
  "patch_1 \<equiv> request_of PATCH [''1''] Map.empty"

abbreviation patch_1_5 :: request where
  "patch_1_5 \<equiv> request_of PATCH [''1.5''] Map.empty"

abbreviation get_9999 :: request where
  "get_9999 \<equiv> request_of GET [''9999''] Map.empty"

abbreviation list_all :: request where
  "list_all \<equiv> request_of GET [] Map.empty"

abbreviation api_request :: "string option \<Rightarrow> request" where
  "api_request og \<equiv>
     \<lparr>req_method = GET, req_path = [''api'', ''products''], req_trailing_slash = False,
      req_origin = og, req_body = Map.empty\<rparr>"

abbreviation api_preflight :: "string option \<Rightarrow> request" where
  "api_preflight og \<equiv>
     \<lparr>req_method = OPTIONS, req_path = [''api'', ''products''], req_trailing_slash = False,
      req_origin = og, req_body = Map.empty\<rparr>"

abbreviation mouse :: product where
  "mouse \<equiv> \<lparr>product_id = 1, name = ''Mouse'', price = Finite False 2 2, availability = False\<rparr>"

abbreviation empty_store :: store where
  "empty_store \<equiv> \<lparr>rows = [], next_id = 1, online = True\<rparr>"

abbreviation mouse_store :: store where
  "mouse_store \<equiv> \<lparr>rows = [mouse], next_id = 2, online = True\<rparr>"

section \<open>Helper facts\<close>

lemmas route_defs = get_all_route_def get_by_id_route_def post_route_def put_route_def
  patch_route_def delete_route_def

lemmas digit_defs = isInt_def isNumeric_def all_digits_def is_digit_def
  digits_of.simps nat_of_digits_def digit_val_def finite_text_def

lemma isNumeric_nonempty: "isNumeric s \<Longrightarrow> s \<noteq> []"
  by (auto simp: isNumeric_def)

lemma isInt_nonempty: "isInt s \<Longrightarrow> s \<noteq> []"
  by (auto simp: isInt_def all_digits_def)

lemma parse_int_isInt: "parse_int seg = Some i \<Longrightarrow> isInt seg"
  by (simp add: parse_int_def split: if_splits)

lemma run_chain_id_rule:
  "ctx_id c = Some seg \<Longrightarrow>
   run_chain id_rule c =
     (if isInt seg then []
      else [\<lparr>err_msg = ''Valor no admitido'', err_param = ''id'', err_location = Params\<rparr>])"
  by (simp add: run_chain_def id_rule_def select_field_def)

lemma run_chain_name_rule_empty:
  "run_chain name_rule c = [] \<longleftrightarrow> passes NotEmpty (body_field (ctx_req c) ''name'')"
  by (simp add: run_chain_def name_rule_def select_field_def passes_def)

lemma numeric_atoms_nonempty:
  "failures IsNumeric v = 0 \<Longrightarrow> failures NotEmpty v = 0"
  by (auto simp: filter_empty_conv isEmpty_def dest: isNumeric_nonempty)

lemma run_chain_price_rule_empty:
  "run_chain price_rule c = [] \<longleftrightarrow>
     passes IsNumeric (body_field (ctx_req c) ''price'')
     \<and> passes CustomGtZero (body_field (ctx_req c) ''price'')"
  using numeric_atoms_nonempty [of "body_field (ctx_req c) ''price''"]
  by (auto simp: run_chain_def price_rule_def select_field_def passes_def)

lemma run_chain_availability_rule_empty:
  "run_chain availability_rule c = [] \<longleftrightarrow>
     passes IsBoolean (body_field (ctx_req c) ''availability'')"
  by (simp add: run_chain_def availability_rule_def select_field_def passes_def)

lemma find_replace:
  "find (\<lambda>q. f q = i) xs = Some p \<Longrightarrow> f p' = i \<Longrightarrow>
   find (\<lambda>q. f q = i) (map (\<lambda>q. if f q = i then p' else q) xs) = Some p'"
  by (induction xs) (auto split: if_splits)

lemma find_key: "find (\<lambda>q. f q = i) xs = Some p \<Longrightarrow> f p = i"
  by (induction xs) (auto split: if_splits)

lemma findByPk_Ok:
  "store_findByPk s seg = Ok res \<longleftrightarrow>
     online s \<and> (\<exists>i. parse_int seg = Some i \<and> res = find (\<lambda>p. product_id p = i) (rows s))"
  by (auto simp: store_findByPk_def split: option.splits)

text \<open>Replacing the routes after a common prefix by routes that behave alike changes nothing.\<close>

lemma run_routes_prefix:
  "(\<And>c'. run_routes xs c' = run_routes ys c') \<Longrightarrow>
   run_routes (pre @ xs) c = run_routes (pre @ ys) c"
  by (induction pre arbitrary: c) (simp_all split: option.splits outcome.splits)

lemma append_methods_step:
  "append_methods ms (m # new) = append_methods (if m \<in> set ms then ms else ms @ [m]) new"
  by (simp add: append_methods_def)

lemma append_methods_known: "set new \<subseteq> set ms \<Longrightarrow> append_methods ms new = ms"
  by (induction new) (simp_all add: append_methods_def)

lemma set_append_methods: "set (append_methods ms new) = set ms \<union> set new"
proof (induction new arbitrary: ms)
  case Nil
  then show ?case by (simp add: append_methods_def)
next
  case (Cons m new)
  then show ?case by (auto simp: append_methods_step)
qed

lemma append_methods_twice:
  "append_methods (append_methods ms new) new = append_methods ms new"
  by (rule append_methods_known) (simp add: set_append_methods)

text \<open>A route that always answers makes an identical route right after it unreachable.\<close>

lemma run_routes_repeated:
  assumes "\<And>c'. \<exists>res. run_layers (route_layers rt) c' = Done res"
  shows "run_routes (rt # rt # rs) c = run_routes (rt # rs) c"
proof (cases "match_path (route_path rt) (req_path (ctx_req c))")
  case None
  then show ?thesis by simp
next
  case (Some ident)
  show ?thesis
  proof (cases "handles rt (req_method (ctx_req c))")
    case True
    obtain res where "run_layers (route_layers rt) (c\<lparr>ctx_id := ident\<rparr>) = Done res"
      using assms by blast
    with True Some show ?thesis by simp
  next
    case False
    show ?thesis
    proof (cases "req_method (ctx_req c) = OPTIONS")
      case True
      with False have "\<not> handles rt OPTIONS" by simp
      with True Some show ?thesis by (simp add: append_methods_twice)
    next
      case notopt: False
      with False Some show ?thesis by simp
    qed
  qed
qed

lemma patch_route_answers: "\<exists>res. run_layers (route_layers patch_route) c = Done res"
  by (simp add: patch_route_def handleInputErrors_def split: prod.splits)

section \<open>Properties\<close>

subsection \<open>Path parameter validation\<close>

text \<open>
  C1. On the routes with an \<open>:id\<close> segment (GET, PUT, PATCH and DELETE on /:id), a segment
  that \<open>isInt\<close> rejects gives the answer 400; the store is left as it was and no handler
  is invoked.
\<close>

theorem nonint_id_rejected:
  assumes "req_method r \<in> {GET, PUT, PATCH, DELETE}"
    and "req_path r = [seg]" and "seg \<noteq> []" and "\<not> isInt seg"
  shows "status (res_response (dispatch router r s)) = 400
     \<and> res_store (dispatch router r s) = s
     \<and> (\<forall>h. Invoked h \<notin> set (res_trace (dispatch router r s)))"
  using assms
  by (auto simp: dispatch_def router_def route_defs handles_def handleInputErrors_def
      run_chain_id_rule)

theorem nonint_id_rejected_witness:
  "PATCH \<in> {GET, PUT, PATCH, DELETE} \<and> ''1.5'' \<noteq> [] \<and> \<not> isInt ''1.5''
   \<and> status (res_response (dispatch router patch_1_5 empty_store)) = 400
   \<and> res_store (dispatch router patch_1_5 empty_store) = empty_store
   \<and> (\<forall>h. Invoked h \<notin> set (res_trace (dispatch router patch_1_5 empty_store)))"
  using nonint_id_rejected [of patch_1_5 "''1.5''" empty_store]
  by (simp add: isInt_def all_digits_def is_digit_def)

subsection \<open>Creating a product\<close>




text \<open>
  C3. A create request (POST /) whose name is a non-empty string and whose price is a number
  above zero with a text that \<open>isNumeric\<close> accepts (a number printed without an exponent),
  served by a store that answers, gets 201 with the created product: its id is the one the
  store assigns, its name and its price are those of the request, its availability is true,
  and it is the row added to the store.
\<close>

theorem valid_create_answers_201:
  assumes "req_method r = POST" and "req_path r = []" and "online s"
    and "body_field r ''name'' = Atom (JStr nm)" and "nm \<noteq> []"
    and "body_field r ''price'' = Atom (JNum x)" and "num_sign x = Positive"
    and "isNumeric (num_toString x)"
  shows "res_response (dispatch router r s)
           = \<lparr>status = 201, payload = ProductJson
                \<lparr>product_id = next_id s, name = nm, price = x, availability = True\<rparr>\<rparr>
     \<and> res_store (dispatch router r s)
           = s\<lparr>rows := rows s @ [\<lparr>product_id = next_id s, name = nm, price = x,
                                  availability = True\<rparr>],
                next_id := next_id s + 1\<rparr>"
  using assms
  by (simp add: dispatch_def router_def route_defs handles_def handleInputErrors_def
      createProduct_def store_create_def answer_def Let_def run_chain_name_rule_empty
      run_chain_price_rule_empty passes_def js_gt_zero_def isEmpty_def)

theorem valid_create_answers_201_witness:
  "online mouse_store
   \<and> body_field create_monitor ''name'' = Atom (JStr ''Monitor'') \<and> ''Monitor'' \<noteq> []
   \<and> body_field create_monitor ''price'' = Atom (JNum number_300)
   \<and> num_sign number_300 = Positive \<and> isNumeric (num_toString number_300)
   \<and> res_response (dispatch router create_monitor mouse_store)
        = \<lparr>status = 201, payload = ProductJson
             \<lparr>product_id = 2, name = ''Monitor'', price = number_300, availability = True\<rparr>\<rparr>
   \<and> rows (res_store (dispatch router create_monitor mouse_store))
        = [mouse, \<lparr>product_id = 2, name = ''Monitor'', price = number_300, availability = True\<rparr>]"
proof -
  have num: "isNumeric (num_toString number_300)"
    by (simp add: digit_defs)
  show ?thesis
    using valid_create_answers_201 [of create_monitor mouse_store "''Monitor''" number_300] num
    by (simp add: body_field_def)
qed

text \<open>
  The claim as stated fails for a numeric price above zero that JavaScript prints in
  exponent form: 1e21 has the text \<open>1e+21\<close>, which \<open>isNumeric\<close> rejects, so the request
  gets 400 and nothing is created.
\<close>

theorem exponent_price_rejected:
  "body_field create_1e21 ''name'' = Atom (JStr ''Monitor'')
   \<and> body_field create_1e21 ''price'' = Atom (JNum number_1e21)
   \<and> num_sign number_1e21 = Positive
   \<and> num_toString number_1e21 = ''1e+21''
   \<and> status (res_response (dispatch router create_1e21 mouse_store)) = 400
   \<and> res_store (dispatch router create_1e21 mouse_store) = mouse_store"
  by (simp add: dispatch_def router_def route_defs handles_def handleInputErrors_def
      run_chain_def name_rule_def price_rule_def select_field_def body_field_def
      js_gt_zero_def isEmpty_def digit_defs)

subsection \<open>Products that are not in the store\<close>

text \<open>
  C4. When the store's lookup of the id finds no product, get-by-id, update,
  patch-availability and delete (GET, PUT, PATCH and DELETE on /:id; for PUT with a body
  that passes its rules) each answer 404, and the store is left as it was.
\<close>

theorem absent_id_answers_404:
  assumes "req_path r = [seg]" and "store_findByPk s seg = Ok None"
    and "req_method r \<in> {GET, PUT, PATCH, DELETE}"
    and "req_method r = PUT \<longrightarrow>
           passes NotEmpty (body_field r ''name'')
         \<and> passes IsNumeric (body_field r ''price'')
         \<and> passes CustomGtZero (body_field r ''price'')
         \<and> passes IsBoolean (body_field r ''availability'')"
  shows "res_response (dispatch router r s) = \<lparr>status = 404, payload = NotFoundMessage\<rparr>
     \<and> res_store (dispatch router r s) = s"
proof -
  have int: "isInt seg" and ne: "seg \<noteq> []"
    using assms(2) by (auto simp: findByPk_Ok dest: parse_int_isInt isInt_nonempty)
  show ?thesis
    using assms int ne
    by (auto simp: dispatch_def router_def route_defs handles_def handleInputErrors_def
        run_chain_id_rule run_chain_name_rule_empty run_chain_price_rule_empty
        run_chain_availability_rule_empty id_param_def answer_def
        getProductById_def updateProduct_def updateAvailability_def deleteProduct_def)
qed

theorem absent_id_answers_404_witness:
  "store_findByPk mouse_store ''9999'' = Ok None
   \<and> res_response (dispatch router get_9999 mouse_store)
        = \<lparr>status = 404, payload = NotFoundMessage\<rparr>
   \<and> res_store (dispatch router get_9999 mouse_store) = mouse_store
   \<and> res_response (dispatch router put_9999 mouse_store)
        = \<lparr>status = 404, payload = NotFoundMessage\<rparr>
   \<and> res_store (dispatch router put_9999 mouse_store) = mouse_store"
proof -
  have absent: "store_findByPk mouse_store ''9999'' = Ok None"
    by (simp add: store_findByPk_def parse_int_def digit_defs)
  have body: "passes NotEmpty (body_field put_9999 ''name'')
      \<and> passes IsNumeric (body_field put_9999 ''price'')
      \<and> passes CustomGtZero (body_field put_9999 ''price'')
      \<and> passes IsBoolean (body_field put_9999 ''availability'')"
    by (simp add: passes_def body_field_def isEmpty_def isBoolean_def js_gt_zero_def digit_defs)
  show ?thesis
    using absent_id_answers_404 [of get_9999 "''9999''" mouse_store]
      absent_id_answers_404 [of put_9999 "''9999''" mouse_store]
      absent body
    by simp
qed

subsection \<open>Toggling the availability\<close>

text \<open>
  C5. For a product that the store's lookup finds, PATCH /:id answers 200 with the product
  whose availability is the logical NOT of the current one, and that is the product the
  store then holds; a second PATCH answers with the original product, which is again the
  one the store holds: the availability is back at its original value.
\<close>

theorem patch_availability_involution:
  assumes "req_method r = PATCH" and "req_path r = [seg]"
    and "store_findByPk s seg = Ok (Some p)"
  shows "res_response (dispatch router r s)
           = \<lparr>status = 200, payload = ProductJson (p\<lparr>availability := \<not> availability p\<rparr>)\<rparr>
     \<and> store_findByPk (res_store (dispatch router r s)) seg
           = Ok (Some (p\<lparr>availability := \<not> availability p\<rparr>))
     \<and> res_response (dispatch router r (res_store (dispatch router r s)))
           = \<lparr>status = 200, payload = ProductJson p\<rparr>
     \<and> store_findByPk (res_store (dispatch router r (res_store (dispatch router r s)))) seg
           = Ok (Some p)"
proof -
  have step: "res_response (dispatch router r t)
           = \<lparr>status = 200, payload = ProductJson (q\<lparr>availability := \<not> availability q\<rparr>)\<rparr>
     \<and> store_findByPk (res_store (dispatch router r t)) seg
           = Ok (Some (q\<lparr>availability := \<not> availability q\<rparr>))"
    if q: "store_findByPk t seg = Ok (Some q)" for t q
  proof -
    from q obtain i where i: "online t" "parse_int seg = Some i"
      "find (\<lambda>p. product_id p = i) (rows t) = Some q"
      by (auto simp: findByPk_Ok)
    have int: "isInt seg" and ne: "seg \<noteq> []"
      using i(2) by (auto dest: parse_int_isInt isInt_nonempty)
    have key: "product_id q = i" using i(3) by (rule find_key)
    have "find (\<lambda>p. product_id p = i)
            (map (\<lambda>x. if product_id x = i then q\<lparr>availability := \<not> availability q\<rparr> else x)
               (rows t))
          = Some (q\<lparr>availability := \<not> availability q\<rparr>)"
      using i(3) key by (intro find_replace) simp_all
    then show ?thesis
      using assms(1,2) q i int ne key
      by (simp add: dispatch_def router_def route_defs handles_def handleInputErrors_def
          run_chain_id_rule id_param_def answer_def updateAvailability_def store_save_def
          store_findByPk_def Let_def)
  qed
  have one: "store_findByPk (res_store (dispatch router r s)) seg
           = Ok (Some (p\<lparr>availability := \<not> availability p\<rparr>))"
    using step [OF assms(3)] by simp
  show ?thesis
    using step [OF assms(3)] step [OF one] by simp
qed

theorem patch_availability_involution_witness:
  "store_findByPk mouse_store ''1'' = Ok (Some mouse)
   \<and> res_response (dispatch router patch_1 mouse_store)
        = \<lparr>status = 200, payload = ProductJson (mouse\<lparr>availability := True\<rparr>)\<rparr>
   \<and> store_findByPk (res_store (dispatch router patch_1 mouse_store)) ''1''
        = Ok (Some (mouse\<lparr>availability := True\<rparr>))
   \<and> res_response (dispatch router patch_1 (res_store (dispatch router patch_1 mouse_store)))
        = \<lparr>status = 200, payload = ProductJson mouse\<rparr>
   \<and> store_findByPk (res_store (dispatch router patch_1
          (res_store (dispatch router patch_1 mouse_store)))) ''1''
        = Ok (Some mouse)"
proof -
  have present: "store_findByPk mouse_store ''1'' = Ok (Some mouse)"
    by (simp add: store_findByPk_def parse_int_def digit_defs)
  show ?thesis
    using patch_availability_involution [of patch_1 "''1''" mouse_store mouse] present
    by simp
qed

subsection \<open>Full update\<close>

text \<open>
  C6. A full update (PUT /:id) whose body lacks \<open>name\<close>, \<open>price\<close> or \<open>availability\<close> gets
  the answer 400; the store is left as it was and no handler is invoked.
\<close>

theorem put_missing_field_rejected:
  assumes "req_method r = PUT" and "req_path r = [seg]" and "seg \<noteq> []"
    and "req_body r ''name'' = None \<or> req_body r ''price'' = None
         \<or> req_body r ''availability'' = None"
  shows "status (res_response (dispatch router r s)) = 400
     \<and> res_store (dispatch router r s) = s
     \<and> (\<forall>h. Invoked h \<notin> set (res_trace (dispatch router r s)))"
proof -
  have "\<not> passes NotEmpty (body_field r ''name'')
        \<or> \<not> passes IsNumeric (body_field r ''price'')
        \<or> \<not> passes IsBoolean (body_field r ''availability'')"
    using assms(4)
    by (auto simp: passes_def body_field_def isEmpty_def isNumeric_def isBoolean_def)
  then show ?thesis
    using assms(1,2,3)
    by (auto simp: dispatch_def router_def route_defs handles_def handleInputErrors_def
        run_chain_name_rule_empty run_chain_price_rule_empty
        run_chain_availability_rule_empty run_chain_id_rule)
qed

theorem put_missing_field_rejected_witness:
  "''1'' \<noteq> [] \<and> req_body put_without_availability ''availability'' = None
   \<and> status (res_response (dispatch router put_without_availability mouse_store)) = 400
   \<and> res_store (dispatch router put_without_availability mouse_store) = mouse_store
   \<and> (\<forall>h. Invoked h \<notin> set (res_trace (dispatch router put_without_availability mouse_store)))"
  using put_missing_field_rejected [of put_without_availability "''1''" mouse_store]
  by simp

subsection \<open>Handlers and the validation middleware\<close>

text \<open>
  C7. Every handler other than the list handler is invoked only right after the validation
  middleware has passed. The list route has no validation middleware: GET / invokes
  \<open>getProducts\<close> and nothing else.
\<close>

theorem handlers_behind_validation_except_list:
  "(Invoked h \<in> set (res_trace (dispatch router r s)) \<and> h \<noteq> GetProducts \<longrightarrow>
      (\<exists>pre. res_trace (dispatch router r s) = pre @ [InputErrorsPassed, Invoked h]))
   \<and> (req_method r = GET \<and> req_path r = [] \<longrightarrow>
      res_trace (dispatch router r s) = [Invoked GetProducts])"
proof -
  consider (root) "req_path r = []"
    | (one) seg where "req_path r = [seg]"
    | (more) a b rest where "req_path r = a # b # rest"
    by (cases "req_path r" rule: list.exhaust; cases "tl (req_path r)"; auto)
  then show ?thesis
  proof cases
    case root
    then show ?thesis
      by (cases "req_method r")
         (auto simp: dispatch_def router_def route_defs handles_def handleInputErrors_def
            split: prod.splits)
  next
    case one
    then show ?thesis
      by (cases "req_method r")
         (auto simp: dispatch_def router_def route_defs handles_def handleInputErrors_def
            split: prod.splits)
  next
    case more
    then show ?thesis
      by (cases "req_method r")
         (auto simp: dispatch_def router_def route_defs handles_def handleInputErrors_def
            split: prod.splits)
  qed
qed

theorem handlers_behind_validation_except_list_witness:
  "Invoked UpdateAvailability \<in> set (res_trace (dispatch router patch_1 mouse_store))
   \<and> UpdateAvailability \<noteq> GetProducts
   \<and> (\<exists>pre. res_trace (dispatch router patch_1 mouse_store)
          = pre @ [InputErrorsPassed, Invoked UpdateAvailability])
   \<and> res_trace (dispatch router list_all mouse_store) = [Invoked GetProducts]"
proof -
  have inv: "Invoked UpdateAvailability \<in> set (res_trace (dispatch router patch_1 mouse_store))"
    by (simp add: dispatch_def router_def route_defs handles_def handleInputErrors_def
        run_chain_id_rule digit_defs split: prod.splits)
  show ?thesis
    using handlers_behind_validation_except_list [of UpdateAvailability patch_1 mouse_store]
      handlers_behind_validation_except_list [of UpdateAvailability list_all mouse_store]
      inv
    by simp
qed

text \<open>
  The claim as stated fails on the list route: GET / on an empty store invokes the list
  handler although the validation middleware never ran.
\<close>

theorem list_handler_skips_validation:
  "Invoked GetProducts \<in> set (res_trace (dispatch router list_all empty_store))
   \<and> InputErrorsPassed \<notin> set (res_trace (dispatch router list_all empty_store))"
  by (simp add: dispatch_def router_def route_defs handles_def split: prod.splits)

subsection \<open>The CORS check\<close>

text \<open>
  C8. The CORS check fails the request with an error exactly when the request's origin is
  not equal to the one configured origin \<open>FRONTEND_URL\<close>. A request with an equal origin
  goes on to the rest of the middleware (the mounted routers) unless its method is OPTIONS:
  that one the CORS middleware answers itself with 204, and nothing after it runs.
\<close>

theorem cors_check_and_preflight:
  "((\<exists>err. server frontend_url r s = Failed err) \<longleftrightarrow> req_origin r \<noteq> frontend_url)
   \<and> (req_origin r = frontend_url \<and> req_method r \<noteq> OPTIONS \<longrightarrow>
        server frontend_url r s = Served (routers r s))
   \<and> (req_origin r = frontend_url \<and> req_method r = OPTIONS \<longrightarrow>
        server frontend_url r s
          = Served \<lparr>res_response = \<lparr>status = 204, payload = NoContent\<rparr>,
                    res_store = s, res_trace = []\<rparr>)"
  by (simp add: server_def corsOptions_origin_def mounted_def answer_def)

theorem cors_check_and_preflight_witness:
  "(\<exists>err. server (Some ''http://localhost:5173'')
            (api_request (Some ''http://evil.example'')) mouse_store = Failed err)
   \<and> server (Some ''http://localhost:5173'')
         (api_request (Some ''http://localhost:5173'')) mouse_store
       = Served (routers (api_request (Some ''http://localhost:5173'')) mouse_store)
   \<and> res_response (routers (api_request (Some ''http://localhost:5173'')) mouse_store)
       = \<lparr>status = 200, payload = ProductsJson [mouse]\<rparr>
   \<and> server (Some ''http://localhost:5173'')
         (api_preflight (Some ''http://localhost:5173'')) mouse_store
       = Served \<lparr>res_response = \<lparr>status = 204, payload = NoContent\<rparr>,
                 res_store = mouse_store, res_trace = []\<rparr>"
proof -
  have list: "res_response (routers (api_request (Some ''http://localhost:5173'')) mouse_store)
       = \<lparr>status = 200, payload = ProductsJson [mouse]\<rparr>"
    by (simp add: routers_def lower_def dispatch_def router_def route_defs handles_def
        getProducts_def store_findAll_def answer_def)
  show ?thesis
    using cors_check_and_preflight [of "Some ''http://localhost:5173''"
        "api_request (Some ''http://evil.example'')" mouse_store]
      cors_check_and_preflight [of "Some ''http://localhost:5173''"
        "api_request (Some ''http://localhost:5173'')" mouse_store]
      cors_check_and_preflight [of "Some ''http://localhost:5173''"
        "api_preflight (Some ''http://localhost:5173'')" mouse_store]
      list
    by simp
qed

text \<open>
  The claim as stated fails for a preflight request: OPTIONS /api/products from the
  configured origin is answered by the CORS middleware with 204, while the routers, had the
  request gone on to them, would have answered 200 with the methods of the matching
  routes.
\<close>

theorem preflight_does_not_pass_through:
  "req_origin (api_preflight (Some ''http://localhost:5173'')) = Some ''http://localhost:5173''
   \<and> server (Some ''http://localhost:5173'')
         (api_preflight (Some ''http://localhost:5173'')) mouse_store
       = Served \<lparr>res_response = \<lparr>status = 204, payload = NoContent\<rparr>,
                 res_store = mouse_store, res_trace = []\<rparr>
   \<and> res_response (routers (api_preflight (Some ''http://localhost:5173'')) mouse_store)
       = \<lparr>status = 200, payload = AllowedMethods [GET, HEAD, POST]\<rparr>
   \<and> server (Some ''http://localhost:5173'')
         (api_preflight (Some ''http://localhost:5173'')) mouse_store
       \<noteq> Served (routers (api_preflight (Some ''http://localhost:5173'')) mouse_store)"
proof -
  have allow: "res_response (routers (api_preflight (Some ''http://localhost:5173'')) mouse_store)
       = \<lparr>status = 200, payload = AllowedMethods [GET, HEAD, POST]\<rparr>"
    by (simp add: routers_def lower_def dispatch_def router_def route_defs handles_def
        route_options_def append_methods_def answer_def)
  have served: "server (Some ''http://localhost:5173'')
         (api_preflight (Some ''http://localhost:5173'')) mouse_store
       = Served \<lparr>res_response = \<lparr>status = 204, payload = NoContent\<rparr>,
                 res_store = mouse_store, res_trace = []\<rparr>"
    by (simp add: server_def corsOptions_origin_def mounted_def answer_def)
  have differ: "\<lparr>res_response = \<lparr>status = 204, payload = NoContent\<rparr>,
                 res_store = mouse_store, res_trace = []\<rparr>
       \<noteq> routers (api_preflight (Some ''http://localhost:5173'')) mouse_store"
  proof
    assume "\<lparr>res_response = \<lparr>status = 204, payload = NoContent\<rparr>,
              res_store = mouse_store, res_trace = []\<rparr>
          = routers (api_preflight (Some ''http://localhost:5173'')) mouse_store"
    then have "res_response (routers (api_preflight (Some ''http://localhost:5173'')) mouse_store)
          = \<lparr>status = 204, payload = NoContent\<rparr>"
      by (metis result.select_convs(1))
    with allow show False by simp
  qed
  show ?thesis
    using allow differ by (simp add: served)
qed

subsection \<open>The repeated PATCH registration\<close>

text \<open>
  C9. The router with PATCH /:id registered twice and the router with it registered once
  give every request the same result: the same response, the same store and the same
  events.
\<close>

theorem duplicate_patch_redundant:
  "dispatch router r s = dispatch router_single_patch r s"
proof -
  have "run_routes ([get_all_route, get_by_id_route, post_route, put_route]
                      @ [patch_route, patch_route, delete_route]) c
      = run_routes ([get_all_route, get_by_id_route, post_route, put_route]
                      @ [patch_route, delete_route]) c" for c
    by (rule run_routes_prefix) (rule run_routes_repeated, rule patch_route_answers)
  then show ?thesis
    unfolding dispatch_def router_def router_single_patch_def
    by (simp only: append_Cons append_Nil)
qed

theorem duplicate_patch_redundant_witness:
  "dispatch router patch_1 mouse_store = dispatch router_single_patch patch_1 mouse_store
   \<and> res_response (dispatch router_single_patch patch_1 mouse_store)
        = \<lparr>status = 200, payload = ProductJson (mouse\<lparr>availability := True\<rparr>)\<rparr>
   \<and> rows (res_store (dispatch router patch_1 mouse_store)) = [mouse\<lparr>availability := True\<rparr>]"
proof -
  have "res_response (dispatch router_single_patch patch_1 mouse_store)
          = \<lparr>status = 200, payload = ProductJson (mouse\<lparr>availability := True\<rparr>)\<rparr>
      \<and> rows (res_store (dispatch router_single_patch patch_1 mouse_store))
          = [mouse\<lparr>availability := True\<rparr>]"
    by (simp add: dispatch_def router_single_patch_def route_defs handles_def
        handleInputErrors_def run_chain_id_rule id_param_def answer_def
        updateAvailability_def store_save_def store_findByPk_def parse_int_def digit_defs
        Let_def)
  then show ?thesis
    using duplicate_patch_redundant [of patch_1 mouse_store] by simp
qed

subsection \<open>Requests without an Origin header\<close>

text \<open>
  C10. A request without an Origin header passes the CORS check if and only if
  \<open>FRONTEND_URL\<close> is not set; when it is set, the request is failed with the CORS error.
\<close>

theorem missing_origin_accepted_iff_unset:
  assumes "req_origin r = None"
  shows "(server frontend_url r s = Served (mounted r s) \<longleftrightarrow> frontend_url = None)
     \<and> (server frontend_url r s = Failed ''Error de CORS'' \<longleftrightarrow> frontend_url \<noteq> None)"
  using assms by (cases frontend_url) (simp_all add: server_def corsOptions_origin_def)

theorem missing_origin_accepted_iff_unset_witness:
  "req_origin (api_request None) = None
   \<and> server None (api_request None) mouse_store = Served (mounted (api_request None) mouse_store)
   \<and> server (Some ''http://localhost:5173'') (api_request None) mouse_store
       = Failed ''Error de CORS''"
  using missing_origin_accepted_iff_unset [of "api_request None" None mouse_store]
    missing_origin_accepted_iff_unset [of "api_request None"
      "Some ''http://localhost:5173''" mouse_store]
  by simp

end
